theory Spec2Isabelle
  imports Main "HOL-Library.Word" "HOL-Library.Sublist"
begin

unbundle bit_operations_syntax

section \<open>Bytes, strings and errors\<close>

text \<open>
  A Go \<^verbatim>\<open>[]byte\<close> is a list of 8-bit words; \<^verbatim>\<open>uint16\<close> and \<^verbatim>\<open>uint32\<close> are words of
  that width. Go's \<^verbatim>\<open>int\<close> is 64 bits wide; every offset and length of this package
  is bounded by the message length plus a few 16-bit quantities, so offsets are natural
  numbers. A Go string is a sequence of bytes; \<open>string_of_bytes\<close> and
  \<open>bytes_of_string\<close> are the conversions \<^verbatim>\<open>string(b)\<close> and \<^verbatim>\<open>[]byte(s)\<close>.
\<close>

type_synonym byte = "8 word"
type_synonym uint16 = "16 word"
type_synonym uint32 = "32 word"

text \<open>
  Every error value the package builds. A wrapping \<^verbatim>\<open>fmt.Errorf("...: %w", err)\<close> is a
  constructor that carries the wrapped error. \<open>IndexOutOfRange\<close> is the runtime panic of
  an index or slice expression out of range; \<open>External\<close> is an error coming from the
  operating system (random source, network).
\<close>

datatype error =
    ErrNameNotFound
  | ErrServerFailed
  | OffsetOutOfBounds nat
  | MalformedPointer nat
  | FailedPointedName error
  | LabelBeyondBoundary nat
  | HeaderTooShort
  | FailedUnpackHeader
  | QuestionTooShort
  | FailedQuestion nat error
  | FailedAnswer nat error
  | FailedRRName error
  | RRHeaderTooShort
  | RRDataExceeds
  | SegmentTooLong string
  | FailedRandomID error
  | FailedBuildQuery error
  | FailedConnect error
  | FailedWrite error
  | FailedRead error
  | FailedSendQuery error
  | FailedParseResponse error
  | ResponseIDMismatch uint16 uint16
  | External string
  | IndexOutOfRange

definition string_of_bytes :: "byte list \<Rightarrow> string" where
  "string_of_bytes bs = map (\<lambda>b. char_of (unat b)) bs"

definition bytes_of_string :: "string \<Rightarrow> byte list" where
  "bytes_of_string s = map (\<lambda>c. word_of_nat (of_char c)) s"

text \<open>The index expression \<^verbatim>\<open>m[i]\<close> and the slice expression \<^verbatim>\<open>m[lo:hi]\<close>.\<close>

definition index :: "byte list \<Rightarrow> nat \<Rightarrow> error + byte" where
  "index m i = (if i < length m then Inr (m ! i) else Inl IndexOutOfRange)"

definition slice :: "byte list \<Rightarrow> nat \<Rightarrow> nat \<Rightarrow> error + byte list" where
  "slice m lo hi =
     (if lo \<le> hi \<and> hi \<le> length m then Inr (take (hi - lo) (drop lo m))
      else Inl IndexOutOfRange)"

text \<open>
  \<^verbatim>\<open>binary.BigEndian.Uint16\<close> and \<^verbatim>\<open>Uint32\<close> of the standard library; \<open>be16 hi lo\<close>
  is \<^verbatim>\<open>uint16(lo) | uint16(hi)<<8\<close>.
\<close>

definition be16 :: "byte \<Rightarrow> byte \<Rightarrow> uint16" where
  "be16 hi lo = ucast lo OR push_bit 8 (ucast hi)"

definition BigEndian_Uint16 :: "byte list \<Rightarrow> error + uint16" where
  "BigEndian_Uint16 b =
     (if length b < 2 then Inl IndexOutOfRange
      else Inr (be16 (b ! 0) (b ! 1)))"

definition BigEndian_Uint32 :: "byte list \<Rightarrow> error + uint32" where
  "BigEndian_Uint32 b =
     (if length b < 4 then Inl IndexOutOfRange
      else Inr (ucast (b ! 3) OR push_bit 8 (ucast (b ! 2))
                OR push_bit 16 (ucast (b ! 1)) OR push_bit 24 (ucast (b ! 0))))"

text \<open>\<^verbatim>\<open>binary.BigEndian.Uint16(m[lo:hi])\<close>, the way the parsers read a field.\<close>

definition Uint16_at :: "byte list \<Rightarrow> nat \<Rightarrow> nat \<Rightarrow> error + uint16" where
  "Uint16_at m lo hi = (case slice m lo hi of Inl e \<Rightarrow> Inl e | Inr b \<Rightarrow> BigEndian_Uint16 b)"

definition Uint32_at :: "byte list \<Rightarrow> nat \<Rightarrow> nat \<Rightarrow> error + uint32" where
  "Uint32_at m lo hi = (case slice m lo hi of Inl e \<Rightarrow> Inl e | Inr b \<Rightarrow> BigEndian_Uint32 b)"

text \<open>\<^verbatim>\<open>strings.Join\<close>, and \<^verbatim>\<open>strings.Split\<close> for a separator of one byte.\<close>

fun strings_Join :: "string list \<Rightarrow> string \<Rightarrow> string" where
  "strings_Join [] sep = []"
| "strings_Join [x] sep = x"
| "strings_Join (x # y # ys) sep = x @ sep @ strings_Join (y # ys) sep"

fun strings_Split :: "string \<Rightarrow> char \<Rightarrow> string list" where
  "strings_Split [] sep = [[]]"
| "strings_Split (c # cs) sep =
     (if c = sep then [] # strings_Split cs sep
      else (case strings_Split cs sep of
              [] \<Rightarrow> [[c]]
            | seg # segs \<Rightarrow> (c # seg) # segs))"

section \<open>Data model (dns.go, records.go)\<close>

type_synonym RecordType = uint16

definition TypeA :: RecordType where "TypeA = 1"
definition TypeAAAA :: RecordType where "TypeAAAA = 28"
definition TypeCNAME :: RecordType where "TypeCNAME = 5"
definition TypeMX :: RecordType where "TypeMX = 15"
definition TypeTXT :: RecordType where "TypeTXT = 16"
definition TypeNS :: RecordType where "TypeNS = 2"

record Header =
  ID :: uint16
  Flags :: uint16
  QDCOUNT :: uint16
  ANCOUNT :: uint16
  NSCOUNT :: uint16
  ARCOUNT :: uint16

text \<open>
  The fields of \<^verbatim>\<open>Question\<close> are \<^verbatim>\<open>Name\<close>, \<^verbatim>\<open>Type\<close> and \<^verbatim>\<open>Class\<close> in the source; they
  carry a \<open>Q\<close> here because \<^verbatim>\<open>ResourceRecord\<close> has fields of the same names.
\<close>

record Question =
  QName :: string
  QType :: RecordType
  QClass :: uint16

record ResourceRecord =
  Name :: string
  Type :: RecordType
  Class :: uint16
  TTL :: uint32
  RDLength :: uint16
  RData :: "byte list"

record DNSMessage =
  Header :: Header
  Questions :: "Question list"
  Answers :: "ResourceRecord list"
  Authority :: "ResourceRecord list"
  Additional :: "ResourceRecord list"

section \<open>Name codec\<close>

text \<open>
  \<^verbatim>\<open>EncodeDomainName\<close>: the loop over the segments appends to the buffer and returns
  at the first segment longer than 63 bytes.
\<close>

fun encode_segments :: "string list \<Rightarrow> byte list \<Rightarrow> error + byte list" where
  "encode_segments [] buf = Inr buf"
| "encode_segments (segment # segments) buf =
     (if length segment > 63 then Inl (SegmentTooLong segment)
      else encode_segments segments
             (buf @ [word_of_nat (length segment)] @ bytes_of_string segment))"

definition EncodeDomainName :: "string \<Rightarrow> error + byte list" where
  "EncodeDomainName domain =
     (case encode_segments (strings_Split domain CHR ''.'') [] of
        Inl e \<Rightarrow> Inl e
      | Inr buf \<Rightarrow> Inr (buf @ [0]))"

text \<open>
  \<^verbatim>\<open>DecodeDomainName\<close>. \<open>decode_loop\<close> is the \<^verbatim>\<open>for\<close> loop with the variables it
  changes (\<^verbatim>\<open>offset\<close>, \<^verbatim>\<open>labels\<close>); the call at a compression pointer is the recursive
  call of the source on a fresh loop. The function is partial: \<open>None\<close> is a call that
  never returns. The flag \<^verbatim>\<open>jumped\<close> is false at each of its tests, since its only
  assignment is followed directly by \<^verbatim>\<open>return\<close>; so \<^verbatim>\<open>bytesRead\<close> is
  \<^verbatim>\<open>offset - startOffset\<close> at the root label and \<^verbatim>\<open>offset - startOffset + 1\<close> at a
  pointer.
\<close>

partial_function (option) decode_loop ::
  "byte list \<Rightarrow> nat \<Rightarrow> nat \<Rightarrow> string list \<Rightarrow> (error + string \<times> nat) option" where
  "decode_loop fullMessage startOffset offset labels =
     (if offset \<ge> length fullMessage then Some (Inl (OffsetOutOfBounds offset))
      else case index fullMessage offset of
        Inl e \<Rightarrow> Some (Inl e)
      | Inr b \<Rightarrow>
         (let len = unat b; offset = offset + 1 in
          if len = 0 then Some (Inr (strings_Join labels ''.'', offset - startOffset))
          else if (len AND 0xC0) = 0xC0 then
            (if offset \<ge> length fullMessage then Some (Inl (MalformedPointer (offset - 1)))
             else case Uint16_at fullMessage (offset - 1) (offset + 1) of
               Inl e \<Rightarrow> Some (Inl e)
             | Inr w \<Rightarrow>
                (let pointer = unat (w AND 0x3FFF) in
                 Option.bind (decode_loop fullMessage pointer pointer [])
                   (\<lambda>r. case r of
                      Inl err \<Rightarrow> Some (Inl (FailedPointedName err))
                    | Inr (pointedName, _) \<Rightarrow>
                        Some (Inr (strings_Join (labels @ [pointedName]) ''.'',
                                   offset - startOffset + 1)))))
          else if offset + len > length fullMessage then Some (Inl (LabelBeyondBoundary len))
          else case slice fullMessage offset (offset + len) of
            Inl e \<Rightarrow> Some (Inl e)
          | Inr label \<Rightarrow>
              decode_loop fullMessage startOffset (offset + len)
                (labels @ [string_of_bytes label])))"

declare decode_loop.simps [code]

definition DecodeDomainName :: "byte list \<Rightarrow> nat \<Rightarrow> (error + string \<times> nat) option" where
  "DecodeDomainName fullMessage offset = decode_loop fullMessage offset offset []"

section \<open>Message codec\<close>

text \<open>
  \<^verbatim>\<open>binary.Read\<close> of the standard library into a \<^verbatim>\<open>Header\<close>: six big-endian
  \<^verbatim>\<open>uint16\<close> from the reader, failing when the reader holds fewer than 12 bytes.
\<close>

definition binary_Read_Header :: "byte list \<Rightarrow> error + Header" where
  "binary_Read_Header r =
     (if length r < 12 then Inl FailedUnpackHeader
      else Inr \<lparr>ID = be16 (r ! 0) (r ! 1),
                Flags = be16 (r ! 2) (r ! 3),
                QDCOUNT = be16 (r ! 4) (r ! 5),
                ANCOUNT = be16 (r ! 6) (r ! 7),
                NSCOUNT = be16 (r ! 8) (r ! 9),
                ARCOUNT = be16 (r ! 10) (r ! 11)\<rparr>)"

definition UnpackHeader :: "byte list \<Rightarrow> error + Header" where
  "UnpackHeader data =
     (if length data < 12 then Inl HeaderTooShort
      else case slice data 0 12 of
        Inl e \<Rightarrow> Inl e
      | Inr reader \<Rightarrow> binary_Read_Header reader)"

text \<open>\<^verbatim>\<open>binary.Write\<close> of a \<^verbatim>\<open>uint16\<close> in big-endian order.\<close>

definition put_Uint16 :: "uint16 \<Rightarrow> byte list" where
  "put_Uint16 v = [ucast (drop_bit 8 v), ucast v]"

definition Header_Pack :: "Header \<Rightarrow> error + byte list" where
  "Header_Pack h =
     Inr (put_Uint16 (ID h) @ put_Uint16 (Flags h) @ put_Uint16 (QDCOUNT h)
          @ put_Uint16 (ANCOUNT h) @ put_Uint16 (NSCOUNT h) @ put_Uint16 (ARCOUNT h))"

definition Question_Pack :: "Question \<Rightarrow> error + byte list" where
  "Question_Pack q =
     (case EncodeDomainName (QName q) of
        Inl e \<Rightarrow> Inl e
      | Inr encodedName \<Rightarrow> Inr (encodedName @ put_Uint16 (QType q) @ put_Uint16 (QClass q)))"

definition parseQuestion :: "byte list \<Rightarrow> nat \<Rightarrow> (error + Question \<times> nat) option" where
  "parseQuestion message offset =
     (case DecodeDomainName message offset of
        None \<Rightarrow> None
      | Some (Inl e) \<Rightarrow> Some (Inl e)
      | Some (Inr (name, nameLen)) \<Rightarrow>
          (if offset + nameLen + 4 > length message then Some (Inl QuestionTooShort)
           else case Uint16_at message (offset + nameLen) (offset + nameLen + 2) of
             Inl e \<Rightarrow> Some (Inl e)
           | Inr ty \<Rightarrow>
              (case Uint16_at message (offset + nameLen + 2) (offset + nameLen + 4) of
                 Inl e \<Rightarrow> Some (Inl e)
               | Inr cl \<Rightarrow>
                   Some (Inr (\<lparr>QName = name, QType = ty, QClass = cl\<rparr>, nameLen + 4)))))"

section \<open>Resource record parser (records.go)\<close>

text \<open>
  The second component of the result is the value of \<^verbatim>\<open>offset\<close> at the final
  \<^verbatim>\<open>return rr, offset, nil\<close>: the position after the record, not a byte count.
  \<^verbatim>\<open>copy\<close> into a fresh slice of \<^verbatim>\<open>rr.RDLength\<close> bytes copies the whole source slice,
  which has that length.
\<close>

definition ParseResourceRecord ::
  "byte list \<Rightarrow> nat \<Rightarrow> (error + ResourceRecord \<times> nat) option" where
  "ParseResourceRecord message offset =
     (case DecodeDomainName message offset of
        None \<Rightarrow> None
      | Some (Inl e) \<Rightarrow> Some (Inl (FailedRRName e))
      | Some (Inr (name, nameLen)) \<Rightarrow>
          (let offset = offset + nameLen in
           if offset + 10 > length message then Some (Inl RRHeaderTooShort)
           else case Uint16_at message offset (offset + 2) of
             Inl e \<Rightarrow> Some (Inl e)
           | Inr ty \<Rightarrow>
           (case Uint16_at message (offset + 2) (offset + 4) of
             Inl e \<Rightarrow> Some (Inl e)
           | Inr cl \<Rightarrow>
           (case Uint32_at message (offset + 4) (offset + 8) of
             Inl e \<Rightarrow> Some (Inl e)
           | Inr ttl \<Rightarrow>
           (case Uint16_at message (offset + 8) (offset + 10) of
             Inl e \<Rightarrow> Some (Inl e)
           | Inr rdlength \<Rightarrow>
              (let offset = offset + 10 in
               if offset + unat rdlength > length message then Some (Inl RRDataExceeds)
               else case slice message offset (offset + unat rdlength) of
                 Inl e \<Rightarrow> Some (Inl e)
               | Inr rdata \<Rightarrow>
                   Some (Inr (\<lparr>Name = name, Type = ty, Class = cl, TTL = ttl,
                               RDLength = rdlength, RData = rdata\<rparr>,
                              offset + unat rdlength))))))))"

section \<open>Response parsing (dns.go)\<close>

text \<open>
  The two \<^verbatim>\<open>for\<close> loops of \<^verbatim>\<open>parseResponse\<close>, with the loop counter \<^verbatim>\<open>i\<close>, the running
  \<^verbatim>\<open>offset\<close> and the sequence built so far. Both add the second result of the parser
  they call to \<^verbatim>\<open>offset\<close>.
\<close>

function parse_questions ::
  "byte list \<Rightarrow> nat \<Rightarrow> nat \<Rightarrow> nat \<Rightarrow> Question list \<Rightarrow> (error + Question list \<times> nat) option" where
  "parse_questions response count i offset qs =
     (if i < count then
        (case parseQuestion response offset of
           None \<Rightarrow> None
         | Some (Inl e) \<Rightarrow> Some (Inl (FailedQuestion i e))
         | Some (Inr (q, n)) \<Rightarrow> parse_questions response count (i + 1) (offset + n) (qs @ [q]))
      else Some (Inr (qs, offset)))"
  by pat_completeness auto
termination
  by (relation "measure (\<lambda>(response, count, i, offset, qs). count - i)") auto

declare parse_questions.simps [simp del]

function parse_answers ::
  "byte list \<Rightarrow> nat \<Rightarrow> nat \<Rightarrow> nat \<Rightarrow> ResourceRecord list
     \<Rightarrow> (error + ResourceRecord list \<times> nat) option" where
  "parse_answers response count i offset rrs =
     (if i < count then
        (case ParseResourceRecord response offset of
           None \<Rightarrow> None
         | Some (Inl e) \<Rightarrow> Some (Inl (FailedAnswer i e))
         | Some (Inr (rr, n)) \<Rightarrow> parse_answers response count (i + 1) (offset + n) (rrs @ [rr]))
      else Some (Inr (rrs, offset)))"
  by pat_completeness auto
termination
  by (relation "measure (\<lambda>(response, count, i, offset, rrs). count - i)") auto

declare parse_answers.simps [simp del]

definition parseResponse :: "byte list \<Rightarrow> (error + DNSMessage) option" where
  "parseResponse response =
     (case UnpackHeader response of
        Inl e \<Rightarrow> Some (Inl e)
      | Inr header \<Rightarrow>
          (let responseCode = Flags header AND 0x000F in
           if responseCode = 2 then Some (Inl ErrServerFailed)
           else if responseCode = 3 then Some (Inl ErrNameNotFound)
           else case parse_questions response (unat (QDCOUNT header)) 0 12 [] of
             None \<Rightarrow> None
           | Some (Inl e) \<Rightarrow> Some (Inl e)
           | Some (Inr (questions, offset)) \<Rightarrow>
              (case parse_answers response (unat (ANCOUNT header)) 0 offset [] of
                 None \<Rightarrow> None
               | Some (Inl e) \<Rightarrow> Some (Inl e)
               | Some (Inr (answers, offset')) \<Rightarrow>
                   Some (Inr \<lparr>Header = header, Questions = questions, Answers = answers,
                              Authority = [], Additional = []\<rparr>))))"

section \<open>Resolver (dns.go)\<close>

text \<open>
  What a call of \<^verbatim>\<open>Resolve\<close> gets from outside the program: the two bytes (or the
  error) of \<^verbatim>\<open>rand.Read\<close>, the outcome of \<^verbatim>\<open>net.Dial\<close> for a server address, of
  \<^verbatim>\<open>conn.Write\<close> for the bytes written, and the datagram (or the error) that
  \<^verbatim>\<open>conn.Read\<close> delivers. \<^verbatim>\<open>conn.Read\<close> fills a buffer of 512 bytes, so at most the
  first 512 bytes of the datagram are returned.
\<close>

record Env =
  rand_Read :: "error + byte \<times> byte"
  net_Dial :: "string \<Rightarrow> error option"
  conn_Write :: "byte list \<Rightarrow> error option"
  conn_Read :: "error + byte list"

record Resolver =
  ServerAddr :: string
  Timeout :: nat

definition buildQuery ::
  "Env \<Rightarrow> Resolver \<Rightarrow> string \<Rightarrow> RecordType \<Rightarrow> error + byte list \<times> uint16" where
  "buildQuery env r domainName recordType =
     (case rand_Read env of
        Inl err \<Rightarrow> Inl (FailedRandomID err)
      | Inr (b0, b1) \<Rightarrow>
         (case BigEndian_Uint16 [b0, b1] of
            Inl e \<Rightarrow> Inl e
          | Inr qid \<Rightarrow>
             (let header = \<lparr>ID = qid, Flags = 0x0100, QDCOUNT = 1, ANCOUNT = 0,
                             NSCOUNT = 0, ARCOUNT = 0\<rparr>;
                  question = \<lparr>QName = domainName, QType = recordType, QClass = 1\<rparr>
              in case Header_Pack header of
                   Inl err \<Rightarrow> Inl err
                 | Inr headerBytes \<Rightarrow>
                    (case Question_Pack question of
                       Inl err \<Rightarrow> Inl err
                     | Inr questionBytes \<Rightarrow> Inr (headerBytes @ questionBytes, qid)))))"

definition sendQuery :: "Env \<Rightarrow> Resolver \<Rightarrow> byte list \<Rightarrow> error + byte list" where
  "sendQuery env r query =
     (case net_Dial env (ServerAddr r) of
        Some err \<Rightarrow> Inl (FailedConnect err)
      | None \<Rightarrow>
         (case conn_Write env query of
            Some err \<Rightarrow> Inl (FailedWrite err)
          | None \<Rightarrow>
             (case conn_Read env of
                Inl err \<Rightarrow> Inl (FailedRead err)
              | Inr datagram \<Rightarrow> Inr (take 512 datagram))))"

definition Resolve ::
  "Env \<Rightarrow> Resolver \<Rightarrow> string \<Rightarrow> RecordType \<Rightarrow> (error + DNSMessage) option" where
  "Resolve env r domainName recordType =
     (case buildQuery env r domainName recordType of
        Inl err \<Rightarrow> Some (Inl (FailedBuildQuery err))
      | Inr (query, queryID) \<Rightarrow>
         (case sendQuery env r query of
            Inl err \<Rightarrow> Some (Inl (FailedSendQuery err))
          | Inr responseBytes \<Rightarrow>
             (case parseResponse responseBytes of
                None \<Rightarrow> None
              | Some (Inl err) \<Rightarrow> Some (Inl (FailedParseResponse err))
              | Some (Inr msg) \<Rightarrow>
                  (if ID (Header msg) \<noteq> queryID
                   then Some (Inl (ResponseIDMismatch (ID (Header msg)) queryID))
                   else Some (Inr msg)))))"

section \<open>Record data formatter\<close>

text \<open>
  The verbs of \<^verbatim>\<open>fmt.Sprintf\<close> that \<^verbatim>\<open>RDataString\<close> uses: \<^verbatim>\<open>%d\<close> (decimal), \<^verbatim>\<open>%x\<close>
  (lower-case hexadecimal, no padding) and \<^verbatim>\<open>%v\<close> of a byte slice (the decimal values
  between brackets, separated by spaces). The verb \<^verbatim>\<open>%q\<close> (\<^verbatim>\<open>strconv.Quote\<close>, which
  depends on the Unicode tables) is a parameter \<open>quote\<close> of the formatter.
\<close>

definition digit :: "nat \<Rightarrow> char" where
  "digit d = ''0123456789abcdef'' ! d"

function fmt_d :: "nat \<Rightarrow> string" where
  "fmt_d n = (if n < 10 then [digit n] else fmt_d (n div 10) @ [digit (n mod 10)])"
  by pat_completeness auto
termination
  by (relation "measure id") auto

declare fmt_d.simps [simp del]

function fmt_x :: "nat \<Rightarrow> string" where
  "fmt_x n = (if n < 16 then [digit n] else fmt_x (n div 16) @ [digit (n mod 16)])"
  by pat_completeness auto
termination
  by (relation "measure id") auto

declare fmt_x.simps [simp del]

definition fmt_v :: "byte list \<Rightarrow> string" where
  "fmt_v bs = ''['' @ strings_Join (map (\<lambda>b. fmt_d (unat b)) bs) '' '' @ '']''"

text \<open>\<^verbatim>\<open>bytes.Index\<close>: the first position where \<open>sep\<close> occurs in \<open>s\<close>; \<open>None\<close> is \<open>-1\<close>.\<close>

fun bytes_Index_from :: "byte list \<Rightarrow> byte list \<Rightarrow> nat \<Rightarrow> nat option" where
  "bytes_Index_from [] sep i = (if sep = [] then Some i else None)"
| "bytes_Index_from (x # xs) sep i =
     (if prefix sep (x # xs) then Some i else bytes_Index_from xs sep (i + 1))"

definition bytes_Index :: "byte list \<Rightarrow> byte list \<Rightarrow> nat option" where
  "bytes_Index s sep = bytes_Index_from s sep 0"

text \<open>
  The loop of the \<^verbatim>\<open>TypeTXT\<close> case. Its reads are guarded by the two length tests:
  \<^verbatim>\<open>data[0]\<close> by \<^verbatim>\<open>len(data) > 0\<close>, and \<^verbatim>\<open>data[1:1+length]\<close>, \<^verbatim>\<open>data[1+length:]\<close> by
  \<^verbatim>\<open>len(data) > length\<close>.
\<close>

function txt_loop :: "(string \<Rightarrow> string) \<Rightarrow> byte list \<Rightarrow> string list \<Rightarrow> string list" where
  "txt_loop quote data texts =
     (if length data > 0 then
        (let len = unat (data ! 0) in
         if length data > len then
           txt_loop quote (drop (1 + len) data)
             (texts @ [quote (string_of_bytes (take len (drop 1 data)))])
         else texts)
      else texts)"
  by pat_completeness auto
termination
  by (relation "measure (\<lambda>(quote, data, texts). length data)") auto

declare txt_loop.simps [simp del]

definition placeholder :: "byte list \<Rightarrow> string" where
  "placeholder rdata = ''unsupported record type or malformed data ('' @ fmt_v rdata @ '')''"

text \<open>
  \<^verbatim>\<open>RDataString\<close>. A \<^verbatim>\<open>case\<close> of the \<^verbatim>\<open>switch\<close> whose inner test fails leaves the
  \<^verbatim>\<open>switch\<close> and reaches the final \<^verbatim>\<open>return\<close> of the placeholder. The result is
  \<open>None\<close> when the call of \<^verbatim>\<open>DecodeDomainName\<close> never returns.
\<close>

definition RDataString ::
  "(string \<Rightarrow> string) \<Rightarrow> ResourceRecord \<Rightarrow> byte list \<Rightarrow> string option" where
  "RDataString quote rr fullMessage =
     (if Type rr = TypeA then
        (if length (RData rr) = 4 then
           Some (fmt_d (unat (RData rr ! 0)) @ ''.'' @ fmt_d (unat (RData rr ! 1)) @ ''.''
                 @ fmt_d (unat (RData rr ! 2)) @ ''.'' @ fmt_d (unat (RData rr ! 3)))
         else Some (placeholder (RData rr)))
      else if Type rr = TypeAAAA then
        (if length (RData rr) = 16 then
           Some (strings_Join
                   (map (\<lambda>i. fmt_x (unat (be16 (RData rr ! i) (RData rr ! (i + 1)))))
                      [0, 2, 4, 6, 8, 10, 12, 14]) '':'')
         else Some (placeholder (RData rr)))
      else if Type rr = TypeCNAME \<or> Type rr = TypeNS then
        (case bytes_Index fullMessage (RData rr) of
           None \<Rightarrow> Some ''invalid CNAME/NS data''
         | Some rdataStartOffset \<Rightarrow>
            (case DecodeDomainName fullMessage rdataStartOffset of
               None \<Rightarrow> None
             | Some (Inr (name, _)) \<Rightarrow> Some name
             | Some (Inl err) \<Rightarrow> Some (placeholder (RData rr))))
      else if Type rr = TypeMX then
        (if length (RData rr) > 2 then
           (let preference = be16 (RData rr ! 0) (RData rr ! 1) in
            case bytes_Index fullMessage (RData rr) of
              None \<Rightarrow> Some ''invalid MX data''
            | Some rdataStartOffset \<Rightarrow>
               (case DecodeDomainName fullMessage (rdataStartOffset + 2) of
                  None \<Rightarrow> None
                | Some (Inr (exchange, _)) \<Rightarrow>
                    Some (fmt_d (unat preference) @ '' '' @ exchange)
                | Some (Inl err) \<Rightarrow> Some (placeholder (RData rr))))
         else Some (placeholder (RData rr)))
      else if Type rr = TypeTXT then
        Some (strings_Join (txt_loop quote (RData rr) []) '' '')
      else Some (placeholder (RData rr)))"

section \<open>Wire-format helpers and concrete messages\<close>

text \<open>
  The wire form of a sequence of labels (or of TXT character strings): each one preceded
  by its length octet.
\<close>

definition wire_labels :: "byte list list \<Rightarrow> byte list" where
  "wire_labels ls = concat (map (\<lambda>l. word_of_nat (length l) # l) ls)"

text \<open>An error value is, or wraps, the runtime panic of an out-of-range read.\<close>

fun panics :: "error \<Rightarrow> bool" where
  "panics IndexOutOfRange = True"
| "panics (FailedPointedName e) = panics e"
| "panics (FailedQuestion i e) = panics e"
| "panics (FailedAnswer i e) = panics e"
| "panics (FailedRRName e) = panics e"
| "panics (FailedRandomID e) = panics e"
| "panics (FailedBuildQuery e) = panics e"
| "panics (FailedConnect e) = panics e"
| "panics (FailedWrite e) = panics e"
| "panics (FailedRead e) = panics e"
| "panics (FailedSendQuery e) = panics e"
| "panics (FailedParseResponse e) = panics e"
| "panics e = False"

text \<open>A name that is a compression pointer to its own offset.\<close>

definition self_pointer_message :: "byte list" where
  "self_pointer_message = [0xC0, 0x00]"

text \<open>
  A response with no question and two answers laid out back to back: the header
  (ANCOUNT = 2) in bytes 0..11, the first record (root name, type A, class IN, TTL 60,
  RDLENGTH 4, data 1.2.3.4) in bytes 12..26 and the second (data 5.6.7.8) in bytes
  27..41.
\<close>

definition two_answer_response :: "byte list" where
  "two_answer_response =
     [0x00, 0x01, 0x81, 0x80, 0, 0, 0, 2, 0, 0, 0, 0,
      0, 0, 1, 0, 1, 0, 0, 0, 60, 0, 4, 1, 2, 3, 4,
      0, 0, 1, 0, 1, 0, 0, 0, 60, 0, 4, 5, 6, 7, 8]"

text \<open>A header-only response with response code 5 (REFUSED).\<close>

definition refused_response :: "byte list" where
  "refused_response = [0x00, 0x01, 0x81, 0x85, 0, 0, 0, 0, 0, 0, 0, 0]"

text \<open>The header of Scenario B.\<close>

definition scenario_B_header :: "byte list" where
  "scenario_B_header = [0x12, 0x34, 0x81, 0x80, 0, 1, 0, 1, 0, 0, 0, 0]"

text \<open>
  An environment where the random source yields the two bytes \<open>idBytes\<close>, the network
  calls succeed and the server's datagram is \<open>reply\<close>.
\<close>

definition reply_env :: "byte \<times> byte \<Rightarrow> byte list \<Rightarrow> Env" where
  "reply_env idBytes reply =
     \<lparr>rand_Read = Inr idBytes, net_Dial = (\<lambda>addr. None), conn_Write = (\<lambda>query. None),
      conn_Read = Inr reply\<rparr>"

definition google_resolver :: Resolver where
  "google_resolver = \<lparr>ServerAddr = ''8.8.8.8:53'', Timeout = 5000000000\<rparr>"

text \<open>Header-only responses with id 5: response code NOERROR, and NXDOMAIN.\<close>

definition scenario_D_response :: "byte list" where
  "scenario_D_response = [0x00, 0x05, 0x81, 0x80, 0, 0, 0, 0, 0, 0, 0, 0]"

definition nxdomain_id5_response :: "byte list" where
  "nxdomain_id5_response = [0x00, 0x05, 0x81, 0x83, 0, 0, 0, 0, 0, 0, 0, 0]"

text \<open>
  The label \<open>www\<close> at offset 0, a pointer to offset 7 at offset 4, a stray octet at
  offset 6 and the name \<open>com\<close> at offset 7.
\<close>

definition pointer_message :: "byte list" where
  "pointer_message = [3, 0x77, 0x77, 0x77, 0xC0, 0x07, 0xFF, 3, 0x63, 0x6F, 0x6D, 0]"

text \<open>One resource record at offset 0 (root name, type A, TTL 60, RDLENGTH 4).\<close>

definition one_record :: "byte list" where
  "one_record = [0, 0, 1, 0, 1, 0, 0, 0, 60, 0, 4, 1, 2, 3, 4]"

text \<open>
  A response with one answer whose header declares one authority record and two
  additional records.
\<close>

definition one_answer_response :: "byte list" where
  "one_answer_response =
     [0x00, 0x01, 0x81, 0x80, 0, 0, 0, 1, 0, 1, 0, 2,
      0, 0, 1, 0, 1, 0, 0, 0, 60, 0, 4, 1, 2, 3, 4]"

text \<open>
  A TXT record holding the character string \<open>hi\<close> followed by a length octet 5 with
  one byte after it; and a quoting function that is right for printable ASCII without
  quotes or backslashes.
\<close>

definition txt_record :: ResourceRecord where
  "txt_record = \<lparr>Name = ''example.com'', Type = TypeTXT, Class = 1, TTL = 60,
                  RDLength = 5, RData = [2, 0x68, 0x69, 5, 0x78]\<rparr>"

definition plain_quote :: "string \<Rightarrow> string" where
  "plain_quote s = [CHR 0x22] @ s @ [CHR 0x22]"

section \<open>Bytes and words\<close>

lemma unat_len: "n < 256 \<Longrightarrow> unat (word_of_nat n :: byte) = n"
  by (simp add: unat_of_nat)

lemma string_bytes_roundtrip: "string_of_bytes (bytes_of_string s) = s"
  unfolding string_of_bytes_def bytes_of_string_def
  by (induction s) (simp_all add: unat_of_nat)

lemma small_not_pointer:
  assumes "n \<le> 63" shows "(n::nat) AND 0xC0 \<noteq> 0xC0"
proof
  assume eq: "n AND 0xC0 = 0xC0"
  have "bit (0xC0 :: nat) 7" by (simp add: bit_iff_odd)
  with eq have "bit (n AND 0xC0) 7" by simp
  then have "bit n 7" unfolding bit_and_iff by blast
  then have "odd (n div 2 ^ 7)" by (simp add: bit_iff_odd)
  moreover from assms have "n div 2 ^ 7 = 0" by simp
  ultimately show False by simp
qed

lemma be16_disjoint: "(ucast (lo :: byte) :: uint16) AND push_bit 8 (ucast (hi :: byte)) = 0"
  by (rule bit_eqI) (auto simp: bit_simps dest: bit_imp_le_length)

lemma unat_be16: "unat (be16 hi lo) = 256 * unat hi + unat lo"
proof -
  have lt: "unat lo < 256" "unat hi < 256"
    using unsigned_less [of lo, where ?'a = nat] unsigned_less [of hi, where ?'a = nat]
    by simp_all
  have "be16 hi lo = ucast lo + push_bit 8 (ucast hi)"
    unfolding be16_def by (rule disjunctive_add_eq_or [symmetric]) (rule be16_disjoint)
  moreover have l: "unat (ucast lo :: uint16) = unat lo"
    using lt by (simp add: unsigned_ucast_eq take_bit_nat_eq_self)
  moreover have h: "unat (push_bit 8 (ucast hi :: uint16)) = 256 * unat hi"
  proof -
    have "unat (ucast hi :: uint16) = unat hi"
      using lt by (simp add: unsigned_ucast_eq take_bit_nat_eq_self)
    then have "unat (push_bit 8 (ucast hi :: uint16)) = take_bit 16 (push_bit 8 (unat hi))"
      by (simp only: unsigned_push_bit_eq) simp
    also have "\<dots> = 256 * unat hi"
      using lt by (simp add: push_bit_eq_mult take_bit_nat_eq_self)
    finally show ?thesis .
  qed
  ultimately show ?thesis
    using lt by (simp add: unat_add_lem [THEN iffD1])
qed

section \<open>Termination of name decoding\<close>

lemma decode_loop_self_pointer_aux:
  assumes "decode_loop m s off ls = Some y"
  shows "\<not> (m = [0xC0, 0x00] \<and> off = 0)"
proof (rule decode_loop.raw_induct
    [where P = "\<lambda>m s off ls y. \<not> (m = [0xC0, 0x00] \<and> off = 0)", OF _ assms], goal_cases)
  case (1 dl fullMessage startOffset offset labels y)
  show ?case
  proof
    assume a: "fullMessage = [0xC0, 0x00] \<and> offset = 0"
    with 1(2) obtain r where "dl [0xC0, 0x00] 0 0 [] = Some r"
      by (auto simp: index_def Uint16_at_def slice_def BigEndian_Uint16_def be16_def
            bind_eq_Some_conv)
    from 1(1)[OF this] show False by simp
  qed
qed

text \<open>
  C1. The claim: \<^verbatim>\<open>DecodeDomainName\<close> returns on every message and offset, with a decode
  error when a compression pointer targets its own position. On the two-byte message
  \<open>C0 00\<close>, a pointer at offset 0 to offset 0, the call at offset 0 makes the same call
  again before anything else and never returns: its value in the model is \<open>None\<close>, not
  an error.
\<close>

theorem DecodeDomainName_self_pointer_never_returns:
  "DecodeDomainName self_pointer_message 0 = None"
proof (cases "DecodeDomainName self_pointer_message 0")
  case None
  then show ?thesis .
next
  case (Some y)
  then show ?thesis
    unfolding DecodeDomainName_def self_pointer_message_def
    using decode_loop_self_pointer_aux by blast
qed

section \<open>Offsets of consecutive answers\<close>

text \<open>
  C2. The claim: the second answer is parsed at the offset the first call returned, so
  answers laid out back to back are each decoded from their true position. In the
  response \<open>two_answer_response\<close> the first record starts at 12 and
  \<^verbatim>\<open>ParseResourceRecord\<close> returns the position 27 after it; the second record, at 27,
  parses there. \<^verbatim>\<open>parseResponse\<close> adds the returned position to its offset and calls
  the parser at 12 + 27 = 39, inside the data of the second record, and fails.
\<close>

theorem parseResponse_second_answer_misplaced:
  "ParseResourceRecord two_answer_response 12 =
     Some (Inr (\<lparr>Name = [], Type = 1, Class = 1, TTL = 60, RDLength = 4,
                  RData = [1, 2, 3, 4]\<rparr>, 27))
   \<and> ParseResourceRecord two_answer_response 27 =
     Some (Inr (\<lparr>Name = [], Type = 1, Class = 1, TTL = 60, RDLength = 4,
                  RData = [5, 6, 7, 8]\<rparr>, 42))
   \<and> ParseResourceRecord two_answer_response (12 + 27) =
     Some (Inl (FailedRRName (LabelBeyondBoundary 6)))
   \<and> parseResponse two_answer_response =
     Some (Inl (FailedAnswer 1 (FailedRRName (LabelBeyondBoundary 6))))"
  by code_simp

section \<open>Response codes\<close>

text \<open>
  C4. The claim: every nonzero response code other than 2 and 3 makes \<^verbatim>\<open>parseResponse\<close>
  fail with a generic protocol error. The header-only response \<open>refused_response\<close> has
  response code 5 and is accepted: the result is a message.
\<close>

theorem parseResponse_accepts_rcode_5:
  "Flags \<lparr>ID = 1, Flags = 0x8185, QDCOUNT = 0, ANCOUNT = 0, NSCOUNT = 0, ARCOUNT = 0\<rparr>
     AND 0x000F = 5
   \<and> parseResponse refused_response =
     Some (Inr \<lparr>Header = \<lparr>ID = 1, Flags = 0x8185, QDCOUNT = 0, ANCOUNT = 0,
                            NSCOUNT = 0, ARCOUNT = 0\<rparr>,
                Questions = [], Answers = [], Authority = [], Additional = []\<rparr>)"
  by code_simp

section \<open>Header unpacking\<close>

lemma UnpackHeader_short: "length data < 12 \<Longrightarrow> UnpackHeader data = Inl HeaderTooShort"
  by (simp add: UnpackHeader_def)

lemma UnpackHeader_long:
  "12 \<le> length data \<Longrightarrow>
   UnpackHeader data =
     Inr \<lparr>ID = be16 (data ! 0) (data ! 1), Flags = be16 (data ! 2) (data ! 3),
          QDCOUNT = be16 (data ! 4) (data ! 5), ANCOUNT = be16 (data ! 6) (data ! 7),
          NSCOUNT = be16 (data ! 8) (data ! 9), ARCOUNT = be16 (data ! 10) (data ! 11)\<rparr>"
  by (simp add: UnpackHeader_def slice_def binary_Read_Header_def)

text \<open>
  C8. \<^verbatim>\<open>UnpackHeader\<close> fails exactly when fewer than 12 bytes are given; otherwise it
  returns the header whose six fields are the six consecutive byte pairs, the first byte
  of each pair being the high-order one; the 12 bytes of Scenario B give id 0x1234,
  flags 0x8180, qdcount 1 and ancount 1.
\<close>

theorem UnpackHeader_reads_six_fields:
  "((\<exists>e. UnpackHeader data = Inl e) \<longleftrightarrow> length data < 12)
   \<and> (12 \<le> length data \<longrightarrow>
        (\<exists>h. UnpackHeader data = Inr h
           \<and> unat (ID h) = 256 * unat (data ! 0) + unat (data ! 1)
           \<and> unat (Flags h) = 256 * unat (data ! 2) + unat (data ! 3)
           \<and> unat (QDCOUNT h) = 256 * unat (data ! 4) + unat (data ! 5)
           \<and> unat (ANCOUNT h) = 256 * unat (data ! 6) + unat (data ! 7)
           \<and> unat (NSCOUNT h) = 256 * unat (data ! 8) + unat (data ! 9)
           \<and> unat (ARCOUNT h) = 256 * unat (data ! 10) + unat (data ! 11)))
   \<and> UnpackHeader scenario_B_header =
       Inr \<lparr>ID = 0x1234, Flags = 0x8180, QDCOUNT = 1, ANCOUNT = 1, NSCOUNT = 0,
            ARCOUNT = 0\<rparr>"
proof (intro conjI impI)
  show "(\<exists>e. UnpackHeader data = Inl e) \<longleftrightarrow> length data < 12"
    using UnpackHeader_short [of data] UnpackHeader_long [of data]
    by (cases "length data < 12") auto
next
  assume "12 \<le> length data"
  then show "\<exists>h. UnpackHeader data = Inr h
           \<and> unat (ID h) = 256 * unat (data ! 0) + unat (data ! 1)
           \<and> unat (Flags h) = 256 * unat (data ! 2) + unat (data ! 3)
           \<and> unat (QDCOUNT h) = 256 * unat (data ! 4) + unat (data ! 5)
           \<and> unat (ANCOUNT h) = 256 * unat (data ! 6) + unat (data ! 7)
           \<and> unat (NSCOUNT h) = 256 * unat (data ! 8) + unat (data ! 9)
           \<and> unat (ARCOUNT h) = 256 * unat (data ! 10) + unat (data ! 11)"
    by (simp add: UnpackHeader_long unat_be16)
next
  show "UnpackHeader scenario_B_header =
       Inr \<lparr>ID = 0x1234, Flags = 0x8180, QDCOUNT = 1, ANCOUNT = 1, NSCOUNT = 0,
            ARCOUNT = 0\<rparr>"
    by code_simp
qed

theorem UnpackHeader_reads_six_fields_witness:
  "12 \<le> length scenario_B_header
   \<and> (\<exists>h. UnpackHeader scenario_B_header = Inr h
        \<and> unat (ID h) = 0x1234 \<and> unat (Flags h) = 0x8180 \<and> unat (QDCOUNT h) = 1
        \<and> unat (ANCOUNT h) = 1 \<and> unat (NSCOUNT h) = 0 \<and> unat (ARCOUNT h) = 0)
   \<and> length (take 11 scenario_B_header) < 12
   \<and> (\<exists>e. UnpackHeader (take 11 scenario_B_header) = Inl e)"
  using UnpackHeader_reads_six_fields [of scenario_B_header]
    UnpackHeader_reads_six_fields [of "take 11 scenario_B_header"]
  by (simp add: scenario_B_header_def)

section \<open>Steps of the decoding loop\<close>

lemma decode_loop_root:
  assumes "off < length msg" "msg ! off = 0"
  shows "decode_loop msg s off ls = Some (Inr (strings_Join ls ''.'', off + 1 - s))"
  using assms by (subst decode_loop.simps) (simp add: index_def)

lemma decode_loop_label:
  assumes "off < length msg" "unat (msg ! off) = n" "0 < n" "n AND 0xC0 \<noteq> 0xC0"
    "off + 1 + n \<le> length msg"
  shows "decode_loop msg s off ls =
         decode_loop msg s (off + 1 + n) (ls @ [string_of_bytes (take n (drop (off + 1) msg))])"
  using assms by (subst decode_loop.simps) (simp add: index_def slice_def Let_def)

lemma decode_loop_pointer:
  assumes "off + 1 < length msg" "unat (msg ! off) AND 0xC0 = 0xC0"
  shows "decode_loop msg s off ls =
         Option.bind
           (decode_loop msg (unat (be16 (msg ! off) (msg ! (off + 1)) AND 0x3FFF))
              (unat (be16 (msg ! off) (msg ! (off + 1)) AND 0x3FFF)) [])
           (\<lambda>r. case r of
                   Inl err \<Rightarrow> Some (Inl (FailedPointedName err))
                 | Inr (pointedName, _) \<Rightarrow>
                     Some (Inr (strings_Join (ls @ [pointedName]) ''.'', off + 1 - s + 1)))"
proof -
  have "unat (msg ! off) \<noteq> 0"
  proof
    assume "unat (msg ! off) = 0"
    with assms(2) have "(0::nat) AND 0xC0 = 0xC0" by simp
    then show False by simp
  qed
  with assms show ?thesis
    by (subst decode_loop.simps)
       (auto simp: index_def slice_def Uint16_at_def BigEndian_Uint16_def Let_def)
qed


lemma wire_labels_Cons:
  "wire_labels (l # ls) = word_of_nat (length l) # l @ wire_labels ls"
  by (simp add: wire_labels_def)

lemma wire_labels_Nil: "wire_labels [] = []"
  by (simp add: wire_labels_def)

lemma drop_cons_facts:
  assumes "drop off msg = x # l @ rest"
  shows "off < length msg" "msg ! off = x" "drop (off + 1) msg = l @ rest"
    "off + 1 + length l \<le> length msg" "take (length l) (drop (off + 1) msg) = l"
    "drop (off + 1 + length l) msg = rest"
proof -
  show lt: "off < length msg"
  proof (rule ccontr)
    assume "\<not> off < length msg"
    then have "drop off msg = []" by simp
    with assms show False by simp
  qed
  from lt have "msg ! off = hd (drop off msg)" by (simp add: hd_drop_conv_nth)
  then show "msg ! off = x" by (simp add: assms)
  have "drop (Suc off) msg = tl (drop off msg)" by (simp add: drop_Suc tl_drop)
  then show d1: "drop (off + 1) msg = l @ rest" by (simp add: assms)
  have "length (drop (off + 1) msg) = length msg - (off + 1)" by simp
  with d1 have "length l + length rest = length msg - (off + 1)" by simp
  with lt show "off + 1 + length l \<le> length msg" by arith
  show "take (length l) (drop (off + 1) msg) = l" by (simp only: d1) simp
  have "drop (off + 1 + length l) msg = drop (length l) (drop (off + 1) msg)"
    by (simp only: drop_drop add.commute)
  then show "drop (off + 1 + length l) msg = rest" by (simp only: d1) simp
qed

lemma decode_loop_labels:
  assumes "\<forall>l\<in>set ls. 0 < length l \<and> length l < 256 \<and> length l AND 0xC0 \<noteq> 0xC0"
    and "drop off msg = wire_labels ls @ rest"
  shows "decode_loop msg s off acc =
         decode_loop msg s (off + length (wire_labels ls)) (acc @ map string_of_bytes ls)"
  using assms
proof (induction ls arbitrary: off acc)
  case Nil
  then show ?case by (simp add: wire_labels_Nil)
next
  case (Cons l ls)
  let ?n = "length l"
  from Cons.prems(1) have n: "0 < ?n" "?n < 256" "?n AND 0xC0 \<noteq> 0xC0" by simp_all
  from Cons.prems(2) have d: "drop off msg = word_of_nat ?n # l @ (wire_labels ls @ rest)"
    by (simp add: wire_labels_Cons)
  note f = drop_cons_facts [OF d]
  have u: "unat (msg ! off) = ?n" using n(2) by (simp only: f(2) unat_len)
  have "decode_loop msg s off acc
      = decode_loop msg s (off + 1 + ?n) (acc @ [string_of_bytes (take ?n (drop (off + 1) msg))])"
    by (rule decode_loop_label [OF f(1) u n(1) n(3) f(4)])
  also have "\<dots> = decode_loop msg s (off + 1 + ?n) (acc @ [string_of_bytes l])"
    by (simp only: f(5))
  also have "\<dots> = decode_loop msg s (off + 1 + ?n + length (wire_labels ls))
      ((acc @ [string_of_bytes l]) @ map string_of_bytes ls)"
  proof (rule Cons.IH)
    show "\<forall>l\<in>set ls. 0 < length l \<and> length l < 256 \<and> length l AND 0xC0 \<noteq> 0xC0"
      using Cons.prems(1) by simp
    show "drop (off + 1 + ?n) msg = wire_labels ls @ rest" by (rule f(6))
  qed
  also have "off + 1 + ?n + length (wire_labels ls) = off + length (wire_labels (l # ls))"
    by (simp add: wire_labels_Cons)
  finally show ?case by simp
qed

lemma unat_and_3FFF: "unat ((w :: uint16) AND 0x3FFF) = unat w mod 16384"
proof -
  have "(0x3FFF :: uint16) = mask 14" by (simp add: mask_eq_exp_minus_1)
  then have "w AND 0x3FFF = take_bit 14 w" by (simp only: take_bit_eq_mask)
  then have "unat (w AND 0x3FFF) = unat (take_bit 14 w)" by (simp only:)
  also have "\<dots> = take_bit 14 (unat w)" by (simp only: unsigned_take_bit_eq)
  also have "\<dots> = unat w mod 16384" by (simp add: take_bit_eq_mod)
  finally show ?thesis .
qed

text \<open>
  C6. When the message at \<open>offset\<close> holds the labels \<open>ls\<close> followed by a compression
  pointer (two octets \<open>p0\<close>, \<open>p1\<close>, the top two bits of \<open>p0\<close> set), a call of
  \<^verbatim>\<open>DecodeDomainName\<close> that returns has consumed the octets of the labels plus exactly
  two, whatever the decoding at the pointer's target consumed (\<open>k\<close>); the name is
  the labels followed by the name decoded at the 14-bit target, and nothing after the
  pointer is read by the outer call.
\<close>

theorem DecodeDomainName_pointer_consumed:
  assumes labels: "\<forall>l\<in>set ls. 0 < length l \<and> length l < 256 \<and> length l AND 0xC0 \<noteq> 0xC0"
    and wire: "drop offset msg = wire_labels ls @ p0 # p1 # rest"
    and pointer: "unat p0 AND 0xC0 = 0xC0"
    and returns: "DecodeDomainName msg offset = Some (Inr (name, n))"
  shows "n = length (wire_labels ls) + 2
       \<and> (\<exists>pointedName k.
            DecodeDomainName msg ((256 * unat p0 + unat p1) mod 16384)
              = Some (Inr (pointedName, k))
            \<and> name = strings_Join (map string_of_bytes ls @ [pointedName]) ''.'')"
proof -
  let ?p = "offset + length (wire_labels ls)"
  let ?t = "unat (be16 p0 p1 AND 0x3FFF)"
  have walk: "decode_loop msg offset offset []
      = decode_loop msg offset ?p ([] @ map string_of_bytes ls)"
    by (rule decode_loop_labels [OF labels wire])
  have "drop ?p msg = drop (length (wire_labels ls)) (drop offset msg)"
    by (simp only: drop_drop add.commute)
  then have dp: "drop ?p msg = p0 # [p1] @ rest" by (simp only: wire) simp
  note f = drop_cons_facts [OF dp]
  from f(3) have "drop (?p + 1) msg = p1 # [] @ rest" by simp
  note g = drop_cons_facts [OF this]
  have two: "?p + 1 < length msg" by (rule g(1))
  have isp: "unat (msg ! ?p) AND 0xC0 = 0xC0" by (simp only: f(2) pointer)
  have "decode_loop msg offset ?p (map string_of_bytes ls) = Some (Inr (name, n))"
    using walk returns by (simp add: DecodeDomainName_def)
  then have b: "Option.bind (decode_loop msg ?t ?t [])
           (\<lambda>r. case r of
                   Inl err \<Rightarrow> Some (Inl (FailedPointedName err))
                 | Inr (pointedName, _) \<Rightarrow>
                     Some (Inr (strings_Join (map string_of_bytes ls @ [pointedName]) ''.'',
                                ?p + 1 - offset + 1))) = Some (Inr (name, n))"
    by (simp only: decode_loop_pointer [OF two isp] f(2) g(2))
  then obtain r where r: "decode_loop msg ?t ?t [] = Some r"
    by (cases "decode_loop msg ?t ?t []") simp_all
  from b r obtain pointedName k where pk: "r = Inr (pointedName, k)"
    and name: "name = strings_Join (map string_of_bytes ls @ [pointedName]) ''.''"
    and n: "n = ?p + 1 - offset + 1"
    by (cases r) (simp_all split: prod.splits)
  have t: "?t = (256 * unat p0 + unat p1) mod 16384"
    by (simp only: unat_and_3FFF unat_be16)
  have "DecodeDomainName msg ?t = Some (Inr (pointedName, k))"
    using r pk by (simp only: DecodeDomainName_def)
  then have "DecodeDomainName msg ((256 * unat p0 + unat p1) mod 16384)
      = Some (Inr (pointedName, k))"
    by (simp only: t)
  moreover from n have "n = length (wire_labels ls) + 2" by simp
  ultimately show ?thesis using name by blast
qed

theorem DecodeDomainName_pointer_consumed_witness:
  "drop 0 pointer_message = wire_labels [[0x77, 0x77, 0x77]] @ 0xC0 # 0x07 # drop 6 pointer_message
   \<and> unat (0xC0 :: byte) AND 0xC0 = 0xC0
   \<and> DecodeDomainName pointer_message 0 = Some (Inr (''www.com'', 6))
   \<and> 6 = length (wire_labels [[0x77, 0x77, 0x77 :: byte]]) + 2
   \<and> DecodeDomainName pointer_message 7 = Some (Inr (''com'', 5))"
proof -
  have w: "drop 0 pointer_message
      = wire_labels [[0x77, 0x77, 0x77]] @ 0xC0 # 0x07 # drop 6 pointer_message"
    by (simp add: pointer_message_def wire_labels_def)
  have l: "\<forall>l\<in>set [[0x77, 0x77, 0x77 :: byte]].
      0 < length l \<and> length l < 256 \<and> length l AND 0xC0 \<noteq> 0xC0"
    by (simp add: small_not_pointer)
  have p: "unat (0xC0 :: byte) AND 0xC0 = 0xC0" by simp
  have d: "DecodeDomainName pointer_message 0 = Some (Inr (''www.com'', 6))"
    by code_simp
  have e: "DecodeDomainName pointer_message 7 = Some (Inr (''com'', 5))"
    by code_simp
  from DecodeDomainName_pointer_consumed [OF l w p d]
  have "6 = length (wire_labels [[0x77, 0x77, 0x77 :: byte]]) + 2" by blast
  with w p d e show ?thesis by blast
qed

section \<open>Round trip of the name codec\<close>

lemma strings_Split_nonempty: "strings_Split s c \<noteq> []"
  by (induction s) (simp_all split: list.splits)

lemma strings_Join_Cons:
  "rest \<noteq> [] \<Longrightarrow> strings_Join (x # rest) sep = x @ sep @ strings_Join rest sep"
  by (cases rest) simp_all

lemma strings_Join_Split: "strings_Join (strings_Split s c) [c] = s"
proof (induction s)
  case Nil
  then show ?case by simp
next
  case (Cons x xs)
  show ?case
  proof (cases "x = c")
    case True
    then show ?thesis
      using Cons.IH by (simp add: strings_Join_Cons strings_Split_nonempty)
  next
    case False
    obtain seg segs where sp: "strings_Split xs c = seg # segs"
      using strings_Split_nonempty [of xs c] by (cases "strings_Split xs c") auto
    with Cons.IH have "strings_Join (seg # segs) [c] = xs" by simp
    then have "strings_Join ((x # seg) # segs) [c] = x # xs"
      by (cases segs) simp_all
    with False sp show ?thesis by simp
  qed
qed

lemma length_bytes_of_string: "length (bytes_of_string s) = length s"
  by (simp add: bytes_of_string_def)

lemma encode_segments_ok:
  assumes "\<forall>seg\<in>set segs. length seg \<le> 63"
  shows "encode_segments segs buf = Inr (buf @ wire_labels (map bytes_of_string segs))"
  using assms
proof (induction segs arbitrary: buf)
  case Nil
  then show ?case by (simp add: wire_labels_Nil)
next
  case (Cons seg segs)
  then show ?case
    by (simp add: wire_labels_Cons length_bytes_of_string)
qed

lemma map_string_bytes_roundtrip:
  "map (string_of_bytes \<circ> bytes_of_string) segs = segs"
  by (induction segs) (simp_all add: string_bytes_roundtrip)

text \<open>
  C5, as amended. The claim as stated fails for a name with an empty segment, such as
  a name with a trailing dot: the empty segment is encoded as a zero octet, which ends
  the name when decoding. For the empty name, and for every name all of whose
  dot-separated segments are between 1 and 63 bytes long, decoding the encoding at
  offset 0 returns the name.
\<close>

theorem Encode_Decode_roundtrip:
  assumes short: "\<forall>seg\<in>set (strings_Split name CHR ''.''). length seg \<le> 63"
    and nonempty: "name = [] \<or> (\<forall>seg\<in>set (strings_Split name CHR ''.''). seg \<noteq> [])"
  shows "\<exists>enc n. EncodeDomainName name = Inr enc
           \<and> DecodeDomainName enc 0 = Some (Inr (name, n))"
proof (cases "name = []")
  case True
  have "EncodeDomainName [] = Inr [0, 0]"
    by (simp add: EncodeDomainName_def bytes_of_string_def)
  moreover have "DecodeDomainName [0, 0] 0 = Some (Inr ([], 1))"
    unfolding DecodeDomainName_def
    using decode_loop_root [of 0 "[0, 0]" 0 "[]"] by simp
  ultimately show ?thesis using True by blast
next
  case False
  let ?segs = "strings_Split name CHR ''.''"
  let ?ls = "map bytes_of_string ?segs"
  let ?w = "wire_labels ?ls"
  from False nonempty have ne: "\<forall>seg\<in>set ?segs. seg \<noteq> []" by blast
  have enc: "EncodeDomainName name = Inr (?w @ [0])"
    by (simp add: EncodeDomainName_def encode_segments_ok [OF short])
  have labels: "\<forall>l\<in>set ?ls. 0 < length l \<and> length l < 256 \<and> length l AND 0xC0 \<noteq> 0xC0"
  proof
    fix l assume "l \<in> set ?ls"
    then obtain seg where seg: "seg \<in> set ?segs" and l: "l = bytes_of_string seg" by auto
    from seg short have le: "length seg \<le> 63" by blast
    from seg ne have "seg \<noteq> []" by blast
    with le show "0 < length l \<and> length l < 256 \<and> length l AND 0xC0 \<noteq> 0xC0"
      by (simp add: l length_bytes_of_string small_not_pointer)
  qed
  have "drop 0 (?w @ [0]) = ?w @ [0]" by simp
  from decode_loop_labels [OF labels this, of 0 "[]"]
  have "decode_loop (?w @ [0]) 0 0 [] = decode_loop (?w @ [0]) 0 (length ?w) ?segs"
    by (simp add: map_string_bytes_roundtrip)
  also have "\<dots> = Some (Inr (strings_Join ?segs ''.'', length ?w + 1 - 0))"
    by (rule decode_loop_root) simp_all
  finally have "DecodeDomainName (?w @ [0]) 0 = Some (Inr (name, length ?w + 1))"
    by (simp add: DecodeDomainName_def strings_Join_Split)
  with enc show ?thesis by blast
qed

theorem Encode_Decode_roundtrip_witness:
  "strings_Split ''example.com'' CHR ''.'' = [''example'', ''com'']
   \<and> (\<exists>enc n. EncodeDomainName ''example.com'' = Inr enc
           \<and> DecodeDomainName enc 0 = Some (Inr (''example.com'', n)))"
proof -
  have s: "strings_Split ''example.com'' CHR ''.'' = [''example'', ''com'']"
    by simp
  from Encode_Decode_roundtrip [of "''example.com''"] s show ?thesis by simp
qed

text \<open>
  The name \<open>a.\<close> has the segments \<open>a\<close> and the empty string, both at most 63 bytes
  long; its encoding decodes to \<open>a\<close>.
\<close>

theorem Encode_Decode_trailing_dot_counterexample:
  "strings_Split ''a.'' CHR ''.'' = [''a'', '''']
   \<and> EncodeDomainName ''a.'' = Inr [1, 0x61, 0, 0]
   \<and> DecodeDomainName [1, 0x61, 0, 0] 0 = Some (Inr (''a'', 3))
   \<and> ''a'' \<noteq> ''a.''"
  by code_simp

end
